theory Spec2Isabelle
  imports Main "HOL-Library.Multiset"
begin

section \<open>JSON values as the service sees them\<close>

text \<open>
  The backup service (\<^verbatim>\<open>BackupService\<close>) reads and writes snapshot files with
  \<^verbatim>\<open>JSON.parse\<close> and \<^verbatim>\<open>JSON.stringify\<close> and then works on the parsed
  value with ordinary JavaScript property access. A parsed file is a value of \<open>json\<close>;
  \<open>json option\<close> adds JavaScript's \<^verbatim>\<open>undefined\<close> (\<open>None\<close>). Numbers are restricted
  to integers (row counts are the only numbers the service computes with). Objects are
  association lists of their own properties; members inherited from the built-in
  prototypes are outside the model.
\<close>

datatype json =
    JNull
  | JBool bool
  | JNum int
  | JStr string
  | JArr "json list"
  | JObj "(string \<times> json) list"

text \<open>Values thrown inside the service: a property read on \<^verbatim>\<open>undefined\<close>/\<^verbatim>\<open>null\<close>
  or a call of a missing method (the name is kept), a failed \<^verbatim>\<open>JSON.parse\<close>, a failed
  file operation (with the message of the file system).\<close>

datatype exn =
    TypeError string
  | SyntaxError
  | IOError string

definition digit_char :: "nat \<Rightarrow> char" where
  "digit_char d = ''0123456789'' ! d"

fun show_nat :: "nat \<Rightarrow> string" where
  "show_nat n = (if n < 10 then [digit_char n] else show_nat (n div 10) @ [digit_char (n mod 10)])"

declare show_nat.simps [simp del]

definition show_int :: "int \<Rightarrow> string" where
  "show_int i = (if i < 0 then CHR ''-'' # show_nat (nat (- i)) else show_nat (nat i))"

text \<open>\<^verbatim>\<open>ToString\<close> of a parsed value: what a template literal prints and what a
  computed property key \<^verbatim>\<open>obj[table]\<close> becomes.\<close>

fun to_key :: "json \<Rightarrow> string" and join_elems :: "json list \<Rightarrow> string" where
  "to_key JNull = ''null''"
| "to_key (JBool b) = (if b then ''true'' else ''false'')"
| "to_key (JNum n) = show_int n"
| "to_key (JStr s) = s"
| "to_key (JArr xs) = join_elems xs"
| "to_key (JObj kvs) = ''[object Object]''"
| "join_elems [] = []"
| "join_elems (x # xs) =
     (if x = JNull then [] else to_key x) @ (if xs = [] then [] else CHR '','' # join_elems xs)"

text \<open>Truthiness, used by every \<^verbatim>\<open>!x\<close> and \<^verbatim>\<open>a && b\<close> of the source.\<close>

fun truthy :: "json option \<Rightarrow> bool" where
  "truthy None = False"
| "truthy (Some JNull) = False"
| "truthy (Some (JBool b)) = b"
| "truthy (Some (JNum n)) = (n \<noteq> 0)"
| "truthy (Some (JStr s)) = (s \<noteq> [])"
| "truthy (Some (JArr xs)) = True"
| "truthy (Some (JObj kvs)) = True"

fun is_array :: "json option \<Rightarrow> bool" where
  "is_array (Some (JArr xs)) = True"
| "is_array _ = False"

text \<open>Own properties: the members of an object, the indices and \<^verbatim>\<open>length\<close> of an
  array or a string.\<close>

fun own_prop :: "json \<Rightarrow> string \<Rightarrow> json option" where
  "own_prop (JObj kvs) k = map_of kvs k"
| "own_prop (JArr xs) k =
     (if k = ''length'' then Some (JNum (int (length xs)))
      else (case find (\<lambda>i. show_nat i = k) [0..<length xs] of
              Some i \<Rightarrow> Some (xs ! i)
            | None \<Rightarrow> None))"
| "own_prop (JStr s) k =
     (if k = ''length'' then Some (JNum (int (length s)))
      else (case find (\<lambda>i. show_nat i = k) [0..<length s] of
              Some i \<Rightarrow> Some (JStr [s ! i])
            | None \<Rightarrow> None))"
| "own_prop _ k = None"

text \<open>A property read \<^verbatim>\<open>v.k\<close> or \<^verbatim>\<open>v[k]\<close>: a \<^verbatim>\<open>TypeError\<close> on
  \<^verbatim>\<open>undefined\<close> and \<^verbatim>\<open>null\<close>.\<close>

fun get_prop :: "json option \<Rightarrow> string \<Rightarrow> exn + json option" where
  "get_prop None k = Inl (TypeError k)"
| "get_prop (Some JNull) k = Inl (TypeError k)"
| "get_prop (Some v) k = Inr (own_prop v k)"

text \<open>\<^verbatim>\<open>JSON.stringify(v)\<close> without indentation, the text the checksums are taken of.\<close>

definition hex_char :: "nat \<Rightarrow> char" where
  "hex_char d = ''0123456789abcdef'' ! d"

definition escape_char :: "char \<Rightarrow> string" where
  "escape_char c =
     (if c = CHR 0x22 then [CHR 0x5C, CHR 0x22]
      else if c = CHR 0x5C then [CHR 0x5C, CHR 0x5C]
      else if c = CHR 0x08 then [CHR 0x5C, CHR ''b'']
      else if c = CHR 0x0C then [CHR 0x5C, CHR ''f'']
      else if c = CHR 0x0A then [CHR 0x5C, CHR ''n'']
      else if c = CHR 0x0D then [CHR 0x5C, CHR ''r'']
      else if c = CHR 0x09 then [CHR 0x5C, CHR ''t'']
      else if of_char c < (32::nat)
        then [CHR 0x5C, CHR ''u'', CHR ''0'', CHR ''0'',
              hex_char (of_char c div 16), hex_char (of_char c mod 16)]
      else [c])"

definition quote :: "string \<Rightarrow> string" where
  "quote s = CHR 0x22 # concat (map escape_char s) @ [CHR 0x22]"

fun JSON_stringify :: "json \<Rightarrow> string"
  and stringify_elems :: "json list \<Rightarrow> string"
  and stringify_members :: "(string \<times> json) list \<Rightarrow> string" where
  "JSON_stringify JNull = ''null''"
| "JSON_stringify (JBool b) = (if b then ''true'' else ''false'')"
| "JSON_stringify (JNum n) = show_int n"
| "JSON_stringify (JStr s) = quote s"
| "JSON_stringify (JArr xs) = ''['' @ stringify_elems xs @ '']''"
| "JSON_stringify (JObj kvs) = ''{'' @ stringify_members kvs @ ''}''"
| "stringify_elems [] = []"
| "stringify_elems (x # xs) =
     JSON_stringify x @ (if xs = [] then [] else CHR '','' # stringify_elems xs)"
| "stringify_members [] = []"
| "stringify_members (kv # kvs) =
     quote (fst kv) @ '':'' @ JSON_stringify (snd kv)
       @ (if kvs = [] then [] else CHR '','' # stringify_members kvs)"

section \<open>The outside world: clock, digest, store and file system\<close>

text \<open>
  Everything the service does not compute itself is an oracle of the environment of one
  invocation: the clock (\<^verbatim>\<open>new Date().toISOString()\<close>), the SHA-256 digest in hex,
  \<^verbatim>\<open>new Date(v).getTime()\<close> (\<open>None\<close> is \<^verbatim>\<open>NaN\<close>), and whether a call to the
  store or the file system reports an error (with its message). Logging
  (\<^verbatim>\<open>LogService\<close>) catches its own failures and changes nothing the service reads; it
  is left out.
\<close>

record env =
  now_iso :: string
  sha256_hex :: "string \<Rightarrow> string"
  date_getTime :: "json option \<Rightarrow> int option"
  select_error :: "string \<Rightarrow> string option"
  select_null :: "string \<Rightarrow> bool"
  delete_error :: "string \<Rightarrow> string option"
  upsert_error :: "string \<Rightarrow> string option"
  write_error :: "string \<Rightarrow> string option"
  unlink_error :: "string \<Rightarrow> string option"
  readdir_error :: "string option"

subsection \<open>Files\<close>

text \<open>A file holds text that \<^verbatim>\<open>JSON.parse\<close> accepts (the parsed value is kept) or
  rejects. The file system is the list of its files by path, in the order
  \<^verbatim>\<open>fs.readdir\<close> reports them.\<close>

datatype content = Garbage | Document json

type_synonym files = "(string \<times> content) list"

definition readFile :: "files \<Rightarrow> string \<Rightarrow> exn + content" where
  "readFile fs p = (case map_of fs p of None \<Rightarrow> Inl (IOError ''ENOENT'') | Some c \<Rightarrow> Inr c)"

definition JSON_parse :: "content \<Rightarrow> exn + json" where
  "JSON_parse c = (case c of Garbage \<Rightarrow> Inl SyntaxError | Document j \<Rightarrow> Inr j)"

fun fs_put :: "string \<Rightarrow> content \<Rightarrow> files \<Rightarrow> files" where
  "fs_put p c [] = [(p, c)]"
| "fs_put p c (qd # fs) = (if fst qd = p then (p, c) # fs else qd # fs_put p c fs)"

definition writeFile :: "env \<Rightarrow> files \<Rightarrow> string \<Rightarrow> json \<Rightarrow> exn + files" where
  "writeFile e fs p j =
     (case write_error e p of
        Some m \<Rightarrow> Inl (IOError m)
      | None \<Rightarrow> Inr (fs_put p (Document j) fs))"

definition unlink :: "env \<Rightarrow> files \<Rightarrow> string \<Rightarrow> exn + files" where
  "unlink e fs p =
     (case unlink_error e p of
        Some m \<Rightarrow> Inl (IOError m)
      | None \<Rightarrow>
          (if p \<in> fst ` set fs then Inr (filter (\<lambda>qd. fst qd \<noteq> p) fs)
           else Inl (IOError ''ENOENT'')))"

definition path_join :: "string \<Rightarrow> string \<Rightarrow> string" where
  "path_join dir name = dir @ ''/'' @ name"

definition in_dir :: "string \<Rightarrow> string \<Rightarrow> bool" where
  "in_dir dir p =
     (take (length dir + 1) p = dir @ ''/''
      \<and> drop (length dir + 1) p \<noteq> []
      \<and> CHR ''/'' \<notin> set (drop (length dir + 1) p))"

definition readdir :: "files \<Rightarrow> string \<Rightarrow> string list" where
  "readdir fs dir = map (drop (length dir + 1)) (filter (in_dir dir) (map fst fs))"

definition ends_with :: "string \<Rightarrow> string \<Rightarrow> bool" where
  "ends_with s suf = (length suf \<le> length s \<and> drop (length s - length suf) s = suf)"

subsection \<open>The relational store\<close>

text \<open>
  A table is the list of its rows. The three calls of the service:
  \<^verbatim>\<open>from(t).select('*')\<close> answers an error, or the rows, or no rows at all
  (\<^verbatim>\<open>data\<close> is \<^verbatim>\<open>null\<close>); \<^verbatim>\<open>from(t).delete().neq('id', 0)\<close> removes the rows
  whose \<^verbatim>\<open>id\<close> differs from 0 (a row without an id, or with id 0, fails the filter
  and stays); \<^verbatim>\<open>from(t).upsert(rows, {onConflict: 'id'})\<close> overwrites the row of the
  same id and inserts the others, a row without an id as a new row. The store accepts an
  object (one row) or an array of objects.
\<close>

type_synonym store = "string \<Rightarrow> json list"

datatype select_result = SelectError string | SelectData "json list option"

definition supabase_select :: "env \<Rightarrow> store \<Rightarrow> string \<Rightarrow> select_result" where
  "supabase_select e db t =
     (case select_error e t of
        Some m \<Rightarrow> SelectError m
      | None \<Rightarrow> (if select_null e t then SelectData None else SelectData (Some (db t))))"

definition row_id :: "json \<Rightarrow> json option" where
  "row_id r = (case r of JObj kvs \<Rightarrow> map_of kvs ''id'' | _ \<Rightarrow> None)"

definition neq_id_0 :: "json \<Rightarrow> bool" where
  "neq_id_0 r =
     (case row_id r of
        None \<Rightarrow> False
      | Some JNull \<Rightarrow> False
      | Some v \<Rightarrow> to_key v \<noteq> ''0'')"

definition supabase_delete_neq_id_0 :: "env \<Rightarrow> store \<Rightarrow> string \<Rightarrow> string + store" where
  "supabase_delete_neq_id_0 e db t =
     (case delete_error e t of
        Some m \<Rightarrow> Inl m
      | None \<Rightarrow> Inr (db(t := filter (\<lambda>r. \<not> neq_id_0 r) (db t))))"

fun is_object :: "json \<Rightarrow> bool" where
  "is_object (JObj kvs) = True"
| "is_object _ = False"

fun payload_rows :: "json \<Rightarrow> json list option" where
  "payload_rows (JArr rs) = (if list_all is_object rs then Some rs else None)"
| "payload_rows (JObj kvs) = Some [JObj kvs]"
| "payload_rows _ = None"

definition upsert_row :: "json list \<Rightarrow> json \<Rightarrow> json list" where
  "upsert_row tbl r =
     (case row_id r of
        None \<Rightarrow> tbl @ [r]
      | Some i \<Rightarrow>
          (if Some i \<in> row_id ` set tbl
           then map (\<lambda>x. if row_id x = Some i then r else x) tbl
           else tbl @ [r]))"

definition supabase_upsert :: "env \<Rightarrow> store \<Rightarrow> string \<Rightarrow> json \<Rightarrow> string + store" where
  "supabase_upsert e db t payload =
     (case upsert_error e t of
        Some m \<Rightarrow> Inl m
      | None \<Rightarrow>
          (case payload_rows payload of
             None \<Rightarrow> Inl ''invalid payload''
           | Some rows \<Rightarrow> Inr (db(t := foldl upsert_row (db t) rows))))"

section \<open>The backup service\<close>

text \<open>\<^verbatim>\<open>BackupService.config\<close>; \<^verbatim>\<open>initialize\<close> may override every field.\<close>

record config =
  backupDirectory :: string
  maxBackupCount :: int
  autoBackupInterval :: int
  version :: string

definition default_config :: config where
  "default_config =
     \<lparr>backupDirectory = ''backups'', maxBackupCount = 10,
      autoBackupInterval = 24 * 60 * 60 * 1000, version = ''1.0''\<rparr>"

definition BACKUP_TABLES :: "string list" where
  "BACKUP_TABLES =
     [''conversation_histories'', ''api_usage'', ''bot_settings'', ''api_logs'',
      ''system_logs'', ''env_variables'', ''bot_status'']"

definition CRITICAL_TABLES :: "string list" where
  "CRITICAL_TABLES = [''conversation_histories'', ''bot_settings'', ''env_variables'']"

text \<open>\<^verbatim>\<open>interface BackupMetadata\<close> and \<^verbatim>\<open>interface BackupData\<close>. The three
  \<^verbatim>\<open>Record<string, _>\<close> members are objects filled by assignment. The member
  \<^verbatim>\<open>version\<close> of the metadata is the field \<open>format_version\<close> here (the configuration
  has a \<^verbatim>\<open>version\<close> of its own).\<close>

record BackupMetadata =
  timestamp :: string
  format_version :: string
  tables :: "string list"
  recordCount :: "(string \<times> nat) list"
  checksums :: "(string \<times> string) list"
  description :: "string option"

record BackupData =
  metadata :: BackupMetadata
  data :: "(string \<times> json list) list"

text \<open>\<^verbatim>\<open>obj[k] = v\<close>: a known key keeps its place, a new key goes last.\<close>

fun assign :: "string \<Rightarrow> 'a \<Rightarrow> (string \<times> 'a) list \<Rightarrow> (string \<times> 'a) list" where
  "assign k v [] = [(k, v)]"
| "assign k v (kw # kvs) = (if fst kw = k then (k, v) # kvs else kw # assign k v kvs)"

text \<open>The timestamp of a snapshot and of its file name:
  \<^verbatim>\<open>new Date().toISOString().replace(/:/g, '-').replace(/\..+/, '')\<close>. The second
  replacement removes, from the first dot that a character other than a line end
  follows, the rest of that line.\<close>

definition line_end :: "char \<Rightarrow> bool" where
  "line_end c = (c = CHR 0x0A \<or> c = CHR 0x0D)"

fun strip_fraction :: "string \<Rightarrow> string" where
  "strip_fraction [] = []"
| "strip_fraction (c # cs) =
     (if c = CHR ''.'' \<and> cs \<noteq> [] \<and> \<not> line_end (hd cs)
      then dropWhile (\<lambda>d. \<not> line_end d) cs
      else c # strip_fraction cs)"

definition file_timestamp :: "string \<Rightarrow> string" where
  "file_timestamp s = strip_fraction (map (\<lambda>c. if c = CHR '':'' then CHR ''-'' else c) s)"

text \<open>The checksum of a table: \<^verbatim>\<open>createHash('sha256').update(JSON.stringify(v)).digest('hex')\<close>.\<close>

definition checksum :: "env \<Rightarrow> json \<Rightarrow> string" where
  "checksum e v = sha256_hex e (JSON_stringify v)"

text \<open>The export loop of \<^verbatim>\<open>createFullBackup\<close> and \<^verbatim>\<open>createCriticalBackup\<close>
  (the same statements in both), over the list of tables: a table whose
  \<^verbatim>\<open>select\<close> reports an error is passed over (\<^verbatim>\<open>continue\<close>); otherwise the rows
  (\<^verbatim>\<open>data || []\<close>), their number and the checksum of \<^verbatim>\<open>JSON.stringify(data)\<close>
  are stored under the table's name.\<close>

fun export_tables :: "env \<Rightarrow> store \<Rightarrow> string list \<Rightarrow> BackupData \<Rightarrow> BackupData" where
  "export_tables e db [] bd = bd"
| "export_tables e db (t # ts) bd =
     (case supabase_select e db t of
        SelectError m \<Rightarrow> export_tables e db ts bd
      | SelectData d \<Rightarrow>
          (let rows = (case d of None \<Rightarrow> [] | Some rs \<Rightarrow> rs);
               jsonData = (case d of None \<Rightarrow> JNull | Some rs \<Rightarrow> JArr rs)
           in export_tables e db ts
                (bd\<lparr>data := assign t rows (data bd),
                    metadata := (metadata bd)
                      \<lparr>recordCount := assign t (length rows) (recordCount (metadata bd)),
                       checksums := assign t (checksum e jsonData) (checksums (metadata bd))\<rparr>\<rparr>)))"

definition new_backup :: "string \<Rightarrow> config \<Rightarrow> string list \<Rightarrow> string option \<Rightarrow> BackupData" where
  "new_backup ts cfg tbls desc =
     \<lparr>metadata =
        \<lparr>timestamp = ts, format_version = version cfg,
         tables = tbls, recordCount = [], checksums = [], description = desc\<rparr>,
      data = []\<rparr>"

text \<open>What \<^verbatim>\<open>JSON.parse\<close> reads back from \<^verbatim>\<open>JSON.stringify(backupData, null, 2)\<close>:
  an absent description is not written.\<close>

definition metadata_json :: "BackupMetadata \<Rightarrow> json" where
  "metadata_json m =
     JObj ([(''timestamp'', JStr (timestamp m)),
            (''version'', JStr (format_version m)),
            (''tables'', JArr (map JStr (tables m))),
            (''recordCount'', JObj (map (\<lambda>kn. (fst kn, JNum (int (snd kn)))) (recordCount m))),
            (''checksums'', JObj (map (\<lambda>kc. (fst kc, JStr (snd kc))) (checksums m)))]
           @ (case description m of None \<Rightarrow> [] | Some d \<Rightarrow> [(''description'', JStr d)]))"

definition backup_json :: "BackupData \<Rightarrow> json" where
  "backup_json bd =
     JObj [(''metadata'', metadata_json (metadata bd)),
           (''data'', JObj (map (\<lambda>kr. (fst kr, JArr (snd kr))) (data bd)))]"

subsection \<open>Listing and pruning\<close>

text \<open>\<^verbatim>\<open>Array.prototype.sort\<close> with a comparison function, as a stable insertion sort:
  \<open>x\<close> goes before the first \<open>y\<close> with \<open>cmp x y \<le> 0\<close>. ECMAScript fixes the result of
  a sort only for a consistent comparison function, and every stable sort gives this
  one then.\<close>

fun insert_by :: "('a \<Rightarrow> 'a \<Rightarrow> int) \<Rightarrow> 'a \<Rightarrow> 'a list \<Rightarrow> 'a list" where
  "insert_by cmp x [] = [x]"
| "insert_by cmp x (y # ys) = (if cmp x y \<le> 0 then x # y # ys else y # insert_by cmp x ys)"

definition js_sort :: "('a \<Rightarrow> 'a \<Rightarrow> int) \<Rightarrow> 'a list \<Rightarrow> 'a list" where
  "js_sort cmp xs = foldr (insert_by cmp) xs []"

text \<open>\<^verbatim>\<open>xs.slice(n)\<close>: a negative start counts from the end.\<close>

definition js_slice :: "int \<Rightarrow> 'a list \<Rightarrow> 'a list" where
  "js_slice n xs = (if n < 0 then drop (nat (int (length xs) + n)) xs else drop (nat n) xs)"

definition nullish :: "json option \<Rightarrow> bool" where
  "nullish v = (v = None \<or> v = Some JNull)"

text \<open>A member of a value that is known not to be \<^verbatim>\<open>undefined\<close> or \<^verbatim>\<open>null\<close>.\<close>

definition member_of :: "json option \<Rightarrow> string \<Rightarrow> json option" where
  "member_of v k = (case v of None \<Rightarrow> None | Some j \<Rightarrow> own_prop j k)"

text \<open>One round of the loop of \<^verbatim>\<open>listAvailableBackups\<close>: the entry of a file, or
  nothing when reading, parsing or \<^verbatim>\<open>backupData.metadata\<close> throws (the inner
  \<^verbatim>\<open>catch\<close>).\<close>

definition backup_entry :: "files \<Rightarrow> string \<Rightarrow> string \<Rightarrow> (string \<times> json option) list" where
  "backup_entry fs dir file =
     (let filePath = path_join dir file in
      case readFile fs filePath of
        Inl err \<Rightarrow> []
      | Inr c \<Rightarrow>
          (case JSON_parse c of
             Inl err \<Rightarrow> []
           | Inr backupData \<Rightarrow>
               (case get_prop (Some backupData) ''metadata'' of
                  Inl err \<Rightarrow> []
                | Inr md \<Rightarrow> [(filePath, md)])))"

text \<open>The comparison function of the sort,
  \<^verbatim>\<open>new Date(b.metadata.timestamp).getTime() - new Date(a.metadata.timestamp).getTime()\<close>;
  the sort reads a \<^verbatim>\<open>NaN\<close> as 0. The function throws on an entry without metadata,
  and a sort of two or more entries calls it on each of them.\<close>

definition entry_time :: "env \<Rightarrow> string \<times> json option \<Rightarrow> int option" where
  "entry_time e x = date_getTime e (member_of (snd x) ''timestamp'')"

definition compare_backups :: "env \<Rightarrow> string \<times> json option \<Rightarrow> string \<times> json option \<Rightarrow> int" where
  "compare_backups e a b =
     (case entry_time e b of
        None \<Rightarrow> 0
      | Some tb \<Rightarrow> (case entry_time e a of None \<Rightarrow> 0 | Some ta \<Rightarrow> tb - ta))"

definition sort_backups ::
  "env \<Rightarrow> (string \<times> json option) list \<Rightarrow> exn + (string \<times> json option) list" where
  "sort_backups e xs =
     (if 2 \<le> length xs \<and> list_ex (\<lambda>x. nullish (snd x)) xs then Inl (TypeError ''timestamp'')
      else Inr (js_sort (compare_backups e) xs))"

text \<open>The entries \<^verbatim>\<open>listAvailableBackups\<close> collects before it sorts them: one for
  each file of the backup directory whose name ends in \<^verbatim>\<open>.json\<close> and that can be
  read.\<close>

definition read_backups :: "files \<Rightarrow> string \<Rightarrow> (string \<times> json option) list" where
  "read_backups fs dir =
     (let files = readdir fs dir;
          backupFiles = filter (\<lambda>file. ends_with file ''.json'') files
      in concat (map (backup_entry fs dir) backupFiles))"

text \<open>\<^verbatim>\<open>listAvailableBackups\<close>: whatever is thrown (by the directory, by the
  comparison function) ends in the empty list.\<close>

definition listAvailableBackups :: "env \<Rightarrow> config \<Rightarrow> files \<Rightarrow> (string \<times> json option) list" where
  "listAvailableBackups e cfg fs =
     (case readdir_error e of
        Some m \<Rightarrow> []
      | None \<Rightarrow>
          (case sort_backups e (read_backups fs (backupDirectory cfg)) of
             Inl err \<Rightarrow> []
           | Inr result \<Rightarrow> result))"

text \<open>The deletion loop of \<^verbatim>\<open>cleanupOldBackups\<close>: a failed \<^verbatim>\<open>unlink\<close> is logged
  and the loop goes on.\<close>

fun unlink_all :: "env \<Rightarrow> string list \<Rightarrow> files \<Rightarrow> files" where
  "unlink_all e [] fs = fs"
| "unlink_all e (p # ps) fs =
     (case unlink e fs p of
        Inl err \<Rightarrow> unlink_all e ps fs
      | Inr fs' \<Rightarrow> unlink_all e ps fs')"

definition backupsToDelete :: "env \<Rightarrow> config \<Rightarrow> files \<Rightarrow> string list" where
  "backupsToDelete e cfg fs =
     (let backups = listAvailableBackups e cfg fs in
      if int (length backups) > maxBackupCount cfg
      then map fst (js_slice (maxBackupCount cfg) backups)
      else [])"

definition cleanupOldBackups :: "env \<Rightarrow> config \<Rightarrow> files \<Rightarrow> files" where
  "cleanupOldBackups e cfg fs = unlink_all e (backupsToDelete e cfg fs) fs"

subsection \<open>Building a snapshot\<close>

text \<open>\<^verbatim>\<open>createFullBackup\<close> over a list of tables (the source's list is the constant
  \<^verbatim>\<open>BACKUP_TABLES\<close>): the snapshot is built, written to
  \<^verbatim>\<open>backup_<timestamp>.json\<close> in the backup directory, and the old files are pruned.
  A failed write is thrown on to the caller.\<close>

definition build_snapshot :: "env \<Rightarrow> config \<Rightarrow> store \<Rightarrow> string list \<Rightarrow> string option \<Rightarrow> BackupData" where
  "build_snapshot e cfg db tbls desc =
     export_tables e db tbls (new_backup (file_timestamp (now_iso e)) cfg tbls desc)"

definition full_backup_path :: "env \<Rightarrow> config \<Rightarrow> string" where
  "full_backup_path e cfg =
     path_join (backupDirectory cfg) (''backup_'' @ file_timestamp (now_iso e) @ ''.json'')"

definition createFullBackupOf ::
  "string list \<Rightarrow> env \<Rightarrow> config \<Rightarrow> store \<Rightarrow> files \<Rightarrow> string option \<Rightarrow> exn + string \<times> files" where
  "createFullBackupOf tbls e cfg db fs desc =
     (let backupData = build_snapshot e cfg db tbls desc;
          filePath = full_backup_path e cfg
      in case writeFile e fs filePath (backup_json backupData) of
           Inl err \<Rightarrow> Inl err
         | Inr fs1 \<Rightarrow> Inr (filePath, cleanupOldBackups e cfg fs1))"

definition createFullBackup ::
  "env \<Rightarrow> config \<Rightarrow> store \<Rightarrow> files \<Rightarrow> string option \<Rightarrow> exn + string \<times> files" where
  "createFullBackup = createFullBackupOf BACKUP_TABLES"

text \<open>\<^verbatim>\<open>createCriticalBackup\<close>: the critical tables, a file name of its own, a default
  description (Japanese in the source, given in English here), and no pruning.\<close>

definition critical_backup_path :: "env \<Rightarrow> config \<Rightarrow> string" where
  "critical_backup_path e cfg =
     path_join (backupDirectory cfg)
       (''critical_backup_'' @ file_timestamp (now_iso e) @ ''.json'')"

definition createCriticalBackup ::
  "env \<Rightarrow> config \<Rightarrow> store \<Rightarrow> files \<Rightarrow> string option \<Rightarrow> exn + string \<times> files" where
  "createCriticalBackup e cfg db fs desc =
     (let d = (if truthy (map_option JStr desc) then desc
               else Some ''backup of the critical tables only'');
          backupData = build_snapshot e cfg db CRITICAL_TABLES d;
          filePath = critical_backup_path e cfg
      in case writeFile e fs filePath (backup_json backupData) of
           Inl err \<Rightarrow> Inl err
         | Inr fs1 \<Rightarrow> Inr (filePath, fs1))"

subsection \<open>Validating a snapshot file\<close>

text \<open>The messages of \<^verbatim>\<open>validateBackup\<close> (Japanese strings in the source), one
  constructor each: the file does not parse; no metadata; no data; no timestamp; no
  version; the table list is missing or invalid; a listed table without data; data that
  is no array; a record count that differs (with the count of the metadata and the actual
  one); a checksum that differs; and the message of the outer \<^verbatim>\<open>catch\<close>, which
  carries the error.\<close>

datatype issue =
    ParseFailed
  | NoMetadata
  | NoData
  | NoTimestamp
  | NoVersion
  | BadTables
  | TableDataMissing string
  | TableNotArray string
  | CountMismatch string "json option" nat
  | ChecksumMismatch string
  | ValidationError exn

record validation =
  valid :: bool
  issues :: "issue list"

definition count_issue :: "json option \<Rightarrow> string \<Rightarrow> json list \<Rightarrow> issue list" where
  "count_issue rc k rows =
     (if truthy rc \<and> member_of rc k \<noteq> Some (JNum (int (length rows)))
      then [CountMismatch k (member_of rc k) (length rows)]
      else [])"

definition checksum_issue :: "env \<Rightarrow> json option \<Rightarrow> string \<Rightarrow> json list \<Rightarrow> issue list" where
  "checksum_issue e cs k rows =
     (if truthy cs \<and> truthy (member_of cs k)
      then (if member_of cs k = Some (JStr (checksum e (JArr rows))) then []
            else [ChecksumMismatch k])
      else [])"

text \<open>The loop over \<^verbatim>\<open>metadata.tables\<close>; \<^verbatim>\<open>backupData.data[table]\<close> throws when
  the data section is missing.\<close>

fun check_tables ::
  "env \<Rightarrow> json option \<Rightarrow> json option \<Rightarrow> json option \<Rightarrow> json list \<Rightarrow> issue list
     \<Rightarrow> exn + issue list" where
  "check_tables e dt rc cs [] acc = Inr acc"
| "check_tables e dt rc cs (t # ts) acc =
     (case get_prop dt (to_key t) of
        Inl err \<Rightarrow> Inl err
      | Inr tableData \<Rightarrow>
          (if \<not> truthy tableData
           then check_tables e dt rc cs ts (acc @ [TableDataMissing (to_key t)])
           else (case tableData of
                   Some (JArr rows) \<Rightarrow>
                     check_tables e dt rc cs ts
                       (acc @ count_issue rc (to_key t) rows
                            @ checksum_issue e cs (to_key t) rows)
                 | _ \<Rightarrow> check_tables e dt rc cs ts (acc @ [TableNotArray (to_key t)]))))"

text \<open>The five checks of the structure, in the order of the source.\<close>

definition structure_issues ::
  "json option \<Rightarrow> json option \<Rightarrow> json option \<Rightarrow> json option \<Rightarrow> json option \<Rightarrow> issue list" where
  "structure_issues md dt ts ver tbls =
     (if truthy md then [] else [NoMetadata])
     @ (if truthy dt then [] else [NoData])
     @ (if truthy ts then [] else [NoTimestamp])
     @ (if truthy ver then [] else [NoVersion])
     @ (if truthy tbls \<and> is_array tbls \<and> tbls \<noteq> Some (JArr []) then [] else [BadTables])"

text \<open>The body of the outer \<^verbatim>\<open>try\<close> after a successful parse: the issues pushed
  so far are lost when a later statement throws.\<close>

definition validate_document :: "env \<Rightarrow> json \<Rightarrow> exn + issue list" where
  "validate_document e backupData =
     (case get_prop (Some backupData) ''metadata'' of
        Inl err \<Rightarrow> Inl err
      | Inr md \<Rightarrow>
     (case get_prop (Some backupData) ''data'' of
        Inl err \<Rightarrow> Inl err
      | Inr dt \<Rightarrow>
     (case get_prop md ''timestamp'' of
        Inl err \<Rightarrow> Inl err
      | Inr ts \<Rightarrow>
     (case get_prop md ''version'' of
        Inl err \<Rightarrow> Inl err
      | Inr ver \<Rightarrow>
     (case get_prop md ''tables'' of
        Inl err \<Rightarrow> Inl err
      | Inr tbls \<Rightarrow>
          (case tbls of
             Some (JArr listed) \<Rightarrow>
               check_tables e dt (member_of md ''recordCount'')
                 (member_of md ''checksums'') listed (structure_issues md dt ts ver tbls)
           | _ \<Rightarrow> Inr (structure_issues md dt ts ver tbls)))))))"

definition validateBackup :: "env \<Rightarrow> files \<Rightarrow> string \<Rightarrow> validation" where
  "validateBackup e fs backupPath =
     (case readFile fs backupPath of
        Inl err \<Rightarrow> \<lparr>valid = False, issues = [ValidationError err]\<rparr>
      | Inr c \<Rightarrow>
          (case JSON_parse c of
             Inl err \<Rightarrow> \<lparr>valid = False, issues = [ParseFailed]\<rparr>
           | Inr backupData \<Rightarrow>
               (case validate_document e backupData of
                  Inl err \<Rightarrow> \<lparr>valid = False, issues = [ValidationError err]\<rparr>
                | Inr found \<Rightarrow> \<lparr>valid = (found = []), issues = found\<rparr>)))"

subsection \<open>Restoring from a snapshot file\<close>

record options =
  clearBeforeRestore :: bool
  onlyTables :: "string list option"
  skipTables :: "string list option"

text \<open>The per-table messages of \<^verbatim>\<open>restoreDetails.errors\<close>: no data, a failed clear,
  a failed insert (both with the message of the store), an exception caught by the inner
  \<^verbatim>\<open>catch\<close>.\<close>

datatype table_error =
    NoTableData
  | ClearFailed string
  | InsertFailed string
  | TableException exn

text \<open>\<^verbatim>\<open>restoreDetails\<close> while the loop runs. \<^verbatim>\<open>recordsRestored\<close> is a number as
  long as every added \<^verbatim>\<open>tableData.length\<close> is one; \<open>None\<close> stands for what
  JavaScript makes of it otherwise (\<^verbatim>\<open>NaN\<close> or a string).\<close>

record progress =
  tablesRestored :: nat
  recordsRestored :: "int option"
  errors :: "(string \<times> table_error) list"

datatype details =
    Restored string progress string
  | Fatal exn string

record report =
  success :: bool
  details :: details

definition js_includes :: "string list \<Rightarrow> json \<Rightarrow> bool" where
  "js_includes xs t = (case t of JStr s \<Rightarrow> s \<in> set xs | _ \<Rightarrow> False)"

text \<open>\<^verbatim>\<open>tablesToRestore.filter(f)\<close>: only an array has the method.\<close>

definition js_filter :: "(json \<Rightarrow> bool) \<Rightarrow> json option \<Rightarrow> exn + json option" where
  "js_filter f v =
     (case v of
        Some (JArr xs) \<Rightarrow> Inr (Some (JArr (filter f xs)))
      | _ \<Rightarrow> Inl (TypeError ''filter''))"

text \<open>\<^verbatim>\<open>for (const table of v)\<close>: the elements of an array, the characters of a
  string, a \<^verbatim>\<open>TypeError\<close> on anything else.\<close>

definition js_iterate :: "json option \<Rightarrow> exn + json list" where
  "js_iterate v =
     (case v of
        Some (JArr xs) \<Rightarrow> Inr xs
      | Some (JStr s) \<Rightarrow> Inr (map (\<lambda>c. JStr [c]) s)
      | _ \<Rightarrow> Inl (TypeError ''iterator''))"

definition given :: "string list option \<Rightarrow> bool" where
  "given l = (case l of None \<Rightarrow> False | Some xs \<Rightarrow> xs \<noteq> [])"

definition tablesToRestore :: "options \<Rightarrow> json option \<Rightarrow> exn + json list" where
  "tablesToRestore opts tbls =
     (case (if given (onlyTables opts)
            then js_filter (js_includes (the (onlyTables opts))) tbls else Inr tbls) of
        Inl err \<Rightarrow> Inl err
      | Inr only \<Rightarrow>
          (case (if given (skipTables opts)
                 then js_filter (\<lambda>t. \<not> js_includes (the (skipTables opts)) t) only
                 else Inr only) of
             Inl err \<Rightarrow> Inl err
           | Inr rest \<Rightarrow> js_iterate rest))"

definition add_length :: "int option \<Rightarrow> json option \<Rightarrow> int option" where
  "add_length acc l =
     (case acc of
        None \<Rightarrow> None
      | Some n \<Rightarrow>
          (case l of
             Some (JNum k) \<Rightarrow> Some (n + k)
           | Some JNull \<Rightarrow> Some n
           | Some (JBool b) \<Rightarrow> Some (n + (if b then 1 else 0))
           | _ \<Rightarrow> None))"

definition record_error :: "string \<Rightarrow> table_error \<Rightarrow> progress \<Rightarrow> progress" where
  "record_error k err p = p\<lparr>errors := assign k err (errors p)\<rparr>"

text \<open>One round of the restore loop, with its \<^verbatim>\<open>try\<close>/\<^verbatim>\<open>catch\<close>: every way out
  but the last records an error for the table and goes on to the next table.\<close>

definition restore_table ::
  "env \<Rightarrow> options \<Rightarrow> json option \<Rightarrow> json \<Rightarrow> store \<times> progress \<Rightarrow> store \<times> progress" where
  "restore_table e opts dt t st =
     (let k = to_key t; db = fst st; p = snd st in
      case get_prop dt k of
        Inl err \<Rightarrow> (db, record_error k (TableException err) p)
      | Inr None \<Rightarrow> (db, record_error k NoTableData p)
      | Inr (Some tableData) \<Rightarrow>
          (if \<not> truthy (Some tableData) then (db, record_error k NoTableData p)
           else if own_prop tableData ''length'' = Some (JNum 0)
             then (db, record_error k NoTableData p)
           else
             (case (if clearBeforeRestore opts then supabase_delete_neq_id_0 e db k
                    else Inr db) of
                Inl m \<Rightarrow> (db, record_error k (ClearFailed m) p)
              | Inr db1 \<Rightarrow>
                  (case supabase_upsert e db1 k tableData of
                     Inl m \<Rightarrow> (db1, record_error k (InsertFailed m) p)
                   | Inr db2 \<Rightarrow>
                       (db2, p\<lparr>tablesRestored := tablesRestored p + 1,
                               recordsRestored :=
                                 add_length (recordsRestored p)
                                   (own_prop tableData ''length'')\<rparr>)))))"

fun restore_tables ::
  "env \<Rightarrow> options \<Rightarrow> json option \<Rightarrow> json list \<Rightarrow> store \<times> progress \<Rightarrow> store \<times> progress" where
  "restore_tables e opts dt [] st = st"
| "restore_tables e opts dt (t # ts) st =
     restore_tables e opts dt ts (restore_table e opts dt t st)"

definition no_progress :: progress where
  "no_progress = \<lparr>tablesRestored = 0, recordsRestored = Some 0, errors = []\<rparr>"

text \<open>The description of the safety-net backup (Japanese in the source).\<close>

definition safety_net_description :: "string option" where
  "safety_net_description = Some ''automatic backup before restore''"

text \<open>The body of the outer \<^verbatim>\<open>try\<close> of \<^verbatim>\<open>restoreFromBackup\<close>. \<open>Inl\<close> is an
  exception that leaves the block, with the store and the files as they are then. A
  version that differs from the configured one is only logged.\<close>

definition restore_try ::
  "env \<Rightarrow> config \<Rightarrow> store \<Rightarrow> files \<Rightarrow> string \<Rightarrow> options
     \<Rightarrow> (exn \<times> store \<times> files) + (report \<times> store \<times> files)" where
  "restore_try e cfg db fs backupPath opts =
     (case readFile fs backupPath of
        Inl err \<Rightarrow> Inl (err, db, fs)
      | Inr c \<Rightarrow>
     (case JSON_parse c of
        Inl err \<Rightarrow> Inl (err, db, fs)
      | Inr backupData \<Rightarrow>
     (case get_prop (Some backupData) ''metadata'' of
        Inl err \<Rightarrow> Inl (err, db, fs)
      | Inr md \<Rightarrow>
     (case get_prop md ''version'' of
        Inl err \<Rightarrow> Inl (err, db, fs)
      | Inr ver \<Rightarrow>
     (case createFullBackup e cfg db fs safety_net_description of
        Inl err \<Rightarrow> Inl (err, db, fs)
      | Inr created \<Rightarrow>
     (case tablesToRestore opts (member_of md ''tables'') of
        Inl err \<Rightarrow> Inl (err, db, snd created)
      | Inr worklist \<Rightarrow>
          (let final = restore_tables e opts (member_of (Some backupData) ''data'') worklist
                        (db, no_progress);
               ok = (tablesRestored (snd final) > 0 \<and> errors (snd final) = [])
           in Inr (\<lparr>success = ok,
                     details = Restored (now_iso e) (snd final) (fst created)\<rparr>,
                   fst final, snd created))))))))"

text \<open>\<^verbatim>\<open>restoreFromBackup\<close>: the outer \<^verbatim>\<open>catch\<close> turns every exception of the
  body into a report. \<open>Inl\<close> would be an exception that reaches the caller.\<close>

definition restoreFromBackup ::
  "env \<Rightarrow> config \<Rightarrow> store \<Rightarrow> files \<Rightarrow> string \<Rightarrow> options
     \<Rightarrow> exn + (report \<times> store \<times> files)" where
  "restoreFromBackup e cfg db fs backupPath opts =
     (case restore_try e cfg db fs backupPath opts of
        Inl thrown \<Rightarrow>
          Inr (\<lparr>success = False, details = Fatal (fst thrown) (now_iso e)\<rparr>, snd thrown)
      | Inr r \<Rightarrow> Inr r)"


subsection \<open>Reading a snapshot document\<close>

text \<open>The members of a snapshot document that the validator and the restore read:
  \<^verbatim>\<open>metadata.tables\<close>, \<^verbatim>\<open>data[t]\<close>, \<^verbatim>\<open>metadata.recordCount[t]\<close> and
  \<^verbatim>\<open>metadata.checksums[t]\<close>.\<close>

definition snapshot_tables :: "json \<Rightarrow> json option" where
  "snapshot_tables doc = member_of (member_of (Some doc) ''metadata'') ''tables''"

definition snapshot_data :: "json \<Rightarrow> string \<Rightarrow> json option" where
  "snapshot_data doc t = member_of (member_of (Some doc) ''data'') t"

definition snapshot_count :: "json \<Rightarrow> string \<Rightarrow> json option" where
  "snapshot_count doc t =
     member_of (member_of (member_of (Some doc) ''metadata'') ''recordCount'') t"

definition snapshot_checksum :: "json \<Rightarrow> string \<Rightarrow> json option" where
  "snapshot_checksum doc t =
     member_of (member_of (member_of (Some doc) ''metadata'') ''checksums'') t"

subsection \<open>Outcomes of a restore\<close>

text \<open>What a caller has after \<^verbatim>\<open>restoreFromBackup\<close>: the report, the rows of a
  table in the store, the files.\<close>

definition restored_rows :: "exn + report \<times> store \<times> files \<Rightarrow> string \<Rightarrow> json list" where
  "restored_rows r t = (case r of Inl err \<Rightarrow> [] | Inr x \<Rightarrow> fst (snd x) t)"

definition returned :: "exn + report \<times> store \<times> files \<Rightarrow> exn + report" where
  "returned r = (case r of Inl err \<Rightarrow> Inl err | Inr x \<Rightarrow> Inr (fst x))"





section \<open>Example inputs\<close>

text \<open>Concrete inputs at which the theorems below are instantiated. The digest of the
  example environment is a stand-in for SHA-256 (the text itself behind a prefix), and
  \<open>example_time\<close> is \<^verbatim>\<open>new Date(s).getTime()\<close> on the ISO strings it lists
  (\<^verbatim>\<open>NaN\<close> elsewhere).\<close>

definition example_time :: "json option \<Rightarrow> int option" where
  "example_time v =
     (case v of
        Some (JStr s) \<Rightarrow>
          map_of [(''2024-01-01T00:00:00.000Z'', 1704067200000),
                  (''2024-01-02T00:00:00.000Z'', 1704153600000),
                  (''2024-01-03T00:00:00.000Z'', 1704240000000),
                  (''2024-01-04T00:00:00.000Z'', 1704326400000),
                  (''2024-01-05T00:00:00.000Z'', 1704412800000),
                  (''2024-01-06T00:00:00.000Z'', 1704499200000),
                  (''2024-01-07T00:00:00.000Z'', 1704585600000)] s
      | _ \<Rightarrow> None)"

definition quiet_env :: env where
  "quiet_env =
     \<lparr>now_iso = ''2024-05-06T07:08:09.123Z'',
      sha256_hex = (\<lambda>s. ''sha256:'' @ s),
      date_getTime = example_time,
      select_error = (\<lambda>t. None), select_null = (\<lambda>t. False),
      delete_error = (\<lambda>t. None), upsert_error = (\<lambda>t. None),
      write_error = (\<lambda>p. None), unlink_error = (\<lambda>p. None),
      readdir_error = None\<rparr>"


definition example_store :: store where
  "example_store =
     (\<lambda>t. [])
       (''A'' := [JObj [(''id'', JNum 1), (''name'', JStr ''x'')], JObj [(''id'', JNum 2)]],
        ''B'' := [JObj [(''id'', JNum 5)]],
        ''C'' := [JObj [(''id'', JStr ''main''), (''on'', JBool True)]])"

definition failing_env :: env where
  "failing_env = quiet_env\<lparr>select_error := (\<lambda>t. if t = ''B'' then Some ''timeout'' else None)\<rparr>"

definition snapshot_of :: "string \<Rightarrow> json" where
  "snapshot_of ts =
     JObj [(''metadata'', JObj [(''timestamp'', JStr ts), (''version'', JStr ''1.0''),
                               (''tables'', JArr [])]),
           (''data'', JObj [])]"

definition keep_three :: config where
  "keep_three = default_config\<lparr>maxBackupCount := 3\<rparr>"

definition five_backups :: files where
  "five_backups =
     [(''backups/backup_c.json'', Document (snapshot_of ''2024-01-03T00:00:00.000Z'')),
      (''backups/backup_a.json'', Document (snapshot_of ''2024-01-01T00:00:00.000Z'')),
      (''backups/backup_e.json'', Document (snapshot_of ''2024-01-05T00:00:00.000Z'')),
      (''backups/notes.txt'', Garbage),
      (''backups/backup_b.json'', Document (snapshot_of ''2024-01-02T00:00:00.000Z'')),
      (''backups/backup_d.json'', Document (snapshot_of ''2024-01-04T00:00:00.000Z''))]"


definition old_critical :: files where
  "old_critical =
     [(''backups/critical_backup_a.json'', Document (snapshot_of ''2024-01-01T00:00:00.000Z'')),
      (''backups/backup_b.json'', Document (snapshot_of ''2024-01-02T00:00:00.000Z'')),
      (''backups/backup_c.json'', Document (snapshot_of ''2024-01-03T00:00:00.000Z'')),
      (''backups/backup_d.json'', Document (snapshot_of ''2024-01-04T00:00:00.000Z''))]"

definition zero_store :: store where
  "zero_store =
     (\<lambda>t. [])
       (''env_variables'' :=
          [JObj [(''id'', JNum 0), (''key'', JStr ''MODE'')],
           JObj [(''id'', JNum 3), (''key'', JStr ''OLD'')]])"

definition env_snapshot :: json where
  "env_snapshot =
     JObj [(''metadata'', JObj [(''timestamp'', JStr ''2024-01-01T00-00-00''),
                               (''version'', JStr ''1.0''),
                               (''tables'', JArr [JStr ''env_variables''])]),
           (''data'', JObj [(''env_variables'',
                             JArr [JObj [(''id'', JNum 1), (''key'', JStr ''NEW'')]])])]"

definition clear_all :: options where
  "clear_all = \<lparr>clearBeforeRestore = True, onlyTables = None, skipTables = None\<rparr>"




section \<open>Properties of the validator\<close>

lemma get_prop_member:
  "get_prop v k = (if nullish v then Inl (TypeError k) else Inr (member_of v k))"
proof (cases v)
  case None
  then show ?thesis by (simp add: nullish_def)
next
  case (Some j)
  then show ?thesis by (cases j) (simp_all add: nullish_def member_of_def)
qed

lemma validate_document_unfold:
  "validate_document e bd =
     (let md = member_of (Some bd) ''metadata''; dt = member_of (Some bd) ''data'';
          tbls = member_of md ''tables'';
          found = structure_issues md dt (member_of md ''timestamp'') (member_of md ''version'') tbls
      in if bd = JNull then Inl (TypeError ''metadata'')
         else if nullish md then Inl (TypeError ''timestamp'')
         else (case tbls of
                 Some (JArr listed) \<Rightarrow>
                   check_tables e dt (member_of md ''recordCount'') (member_of md ''checksums'')
                     listed found
               | _ \<Rightarrow> Inr found))"
  by (simp add: validate_document_def get_prop_member nullish_def Let_def)






text \<open>
  Claim C9. At the snapshot \<^verbatim>\<open>{}\<close>, which parses, the source pushes the issues
  "no metadata" and "no data" and then reads \<^verbatim>\<open>metadata.timestamp\<close> of the missing
  metadata: the \<^verbatim>\<open>TypeError\<close> goes to the outer \<^verbatim>\<open>catch\<close>, which returns its own
  single message. The collected issues are not reported.
\<close>

theorem validate_loses_collected_issues:
  "validateBackup e [(p, Document (JObj []))] p
     = \<lparr>valid = False, issues = [ValidationError (TypeError ''timestamp'')]\<rparr>"
  by (simp add: validateBackup_def readFile_def JSON_parse_def validate_document_unfold
      member_of_def nullish_def)

text \<open>On every path of the validator the flag \<open>valid\<close> says that no issue is
  reported.\<close>

lemma validate_valid_iff_no_issues:
  "valid (validateBackup e fs p) = (issues (validateBackup e fs p) = [])"
proof (cases "map_of fs p")
  case None
  then show ?thesis by (simp add: validateBackup_def readFile_def)
next
  case (Some c)
  show ?thesis
  proof (cases c)
    case Garbage
    with Some show ?thesis by (simp add: validateBackup_def readFile_def JSON_parse_def)
  next
    case (Document bd)
    with Some show ?thesis
      by (cases "validate_document e bd")
         (simp_all add: validateBackup_def readFile_def JSON_parse_def)
  qed
qed

section \<open>Properties of the snapshot builder\<close>

lemma map_of_assign: "map_of (assign k v kvs) k' = (if k' = k then Some v else map_of kvs k')"
  by (induction kvs) auto

lemma map_of_map_snd: "map_of (map (\<lambda>kv. (fst kv, f (snd kv))) kvs) k = map_option f (map_of kvs k)"
  by (induction kvs) auto

lemma export_tables_metadata:
  "timestamp (metadata (export_tables e db ts bd)) = timestamp (metadata bd)
   \<and> format_version (metadata (export_tables e db ts bd)) = format_version (metadata bd)
   \<and> tables (metadata (export_tables e db ts bd)) = tables (metadata bd)
   \<and> description (metadata (export_tables e db ts bd)) = description (metadata bd)"
  by (induction ts arbitrary: bd) (auto simp: supabase_select_def Let_def split: option.splits)

lemma export_tables_data:
  "map_of (data (export_tables e db ts bd)) t =
     (if t \<in> set ts \<and> select_error e t = None
      then Some (if select_null e t then [] else db t) else map_of (data bd) t)"
  by (induction ts arbitrary: bd)
     (auto simp: supabase_select_def Let_def map_of_assign split: option.splits)

lemma export_tables_recordCount:
  "map_of (recordCount (metadata (export_tables e db ts bd))) t =
     (if t \<in> set ts \<and> select_error e t = None
      then Some (length (if select_null e t then [] else db t))
      else map_of (recordCount (metadata bd)) t)"
  by (induction ts arbitrary: bd)
     (auto simp: supabase_select_def Let_def map_of_assign split: option.splits)

lemma export_tables_checksums:
  "map_of (checksums (metadata (export_tables e db ts bd))) t =
     (if t \<in> set ts \<and> select_error e t = None
      then Some (checksum e (if select_null e t then JNull else JArr (db t)))
      else map_of (checksums (metadata bd)) t)"
  by (induction ts arbitrary: bd)
     (auto simp: supabase_select_def Let_def map_of_assign split: option.splits)

lemma snapshot_tables_build:
  "snapshot_tables (backup_json (build_snapshot e cfg db tbls desc)) = Some (JArr (map JStr tbls))"
  by (simp add: snapshot_tables_def backup_json_def metadata_json_def member_of_def
      build_snapshot_def export_tables_metadata new_backup_def)

lemma snapshot_data_build:
  "snapshot_data (backup_json (build_snapshot e cfg db tbls desc)) t =
     (if t \<in> set tbls \<and> select_error e t = None
      then Some (JArr (if select_null e t then [] else db t)) else None)"
  by (simp add: snapshot_data_def backup_json_def member_of_def
      map_of_map_snd [where f = JArr]
      build_snapshot_def export_tables_data new_backup_def)

lemma snapshot_count_build:
  "snapshot_count (backup_json (build_snapshot e cfg db tbls desc)) t =
     (if t \<in> set tbls \<and> select_error e t = None
      then Some (JNum (int (length (if select_null e t then [] else db t)))) else None)"
  by (simp add: snapshot_count_def backup_json_def metadata_json_def member_of_def
      map_of_map_snd [where f = "\<lambda>n. JNum (int n)"]
      build_snapshot_def export_tables_recordCount new_backup_def)

lemma snapshot_checksum_build:
  "snapshot_checksum (backup_json (build_snapshot e cfg db tbls desc)) t =
     (if t \<in> set tbls \<and> select_error e t = None
      then Some (JStr (checksum e (if select_null e t then JNull else JArr (db t)))) else None)"
  by (simp add: snapshot_checksum_def backup_json_def metadata_json_def member_of_def
      map_of_map_snd [where f = JStr]
      build_snapshot_def export_tables_checksums new_backup_def)


lemma unlink_step:
  "(case unlink e fs p of Inl err \<Rightarrow> fs | Inr fs' \<Rightarrow> fs')
     = filter (\<lambda>qd. \<not> (fst qd = p \<and> unlink_error e p = None)) fs"
proof (cases "unlink_error e p")
  case (Some m)
  then show ?thesis by (simp add: unlink_def)
next
  case None
  show ?thesis
  proof (cases "p \<in> fst ` set fs")
    case True
    with None show ?thesis by (simp add: unlink_def)
  next
    case False
    then have "filter (\<lambda>qd. fst qd \<noteq> p) fs = fs" by (auto simp: filter_id_conv)
    with None False show ?thesis by (simp add: unlink_def)
  qed
qed

lemma unlink_all_filter:
  "unlink_all e ps fs = filter (\<lambda>qd. \<not> (fst qd \<in> set ps \<and> unlink_error e (fst qd) = None)) fs"
proof (induction ps arbitrary: fs)
  case Nil
  then show ?case by simp
next
  case (Cons p ps)
  have "unlink_all e (p # ps) fs = unlink_all e ps (case unlink e fs p of Inl err \<Rightarrow> fs | Inr fs' \<Rightarrow> fs')"
    by (simp split: sum.splits)
  also have "\<dots> = filter (\<lambda>qd. \<not> (fst qd \<in> set ps \<and> unlink_error e (fst qd) = None))
                     (filter (\<lambda>qd. \<not> (fst qd = p \<and> unlink_error e p = None)) fs)"
    by (simp only: Cons.IH unlink_step)
  also have "\<dots> = filter (\<lambda>qd. \<not> (fst qd \<in> set (p # ps) \<and> unlink_error e (fst qd) = None)) fs"
    by (auto intro: filter_cong)
  finally show ?case .
qed

lemma map_of_filter_fst:
  "map_of (filter (\<lambda>qd. P (fst qd)) fs) q = (if P q then map_of fs q else None)"
  by (induction fs) auto

lemma map_of_unlink_all:
  "map_of (unlink_all e ps fs) q =
     (if q \<in> set ps \<and> unlink_error e q = None then None else map_of fs q)"
  using map_of_filter_fst [where P = "\<lambda>q. \<not> (q \<in> set ps \<and> unlink_error e q = None)", of fs q]
  by (simp add: unlink_all_filter)

lemma map_of_cleanup:
  "map_of (cleanupOldBackups e cfg fs) q =
     (if q \<in> set (backupsToDelete e cfg fs) \<and> unlink_error e q = None then None else map_of fs q)"
  by (simp add: cleanupOldBackups_def map_of_unlink_all)

lemma createFullBackupOf_written:
  assumes "createFullBackupOf tbls e cfg db fs desc = Inr (p, fs')"
  shows "p = full_backup_path e cfg
         \<and> write_error e p = None
         \<and> fs' = cleanupOldBackups e cfg
                   (fs_put p (Document (backup_json (build_snapshot e cfg db tbls desc))) fs)"
  using assms
  by (auto simp: createFullBackupOf_def writeFile_def Let_def split: option.splits)






text \<open>
  Claim C1 (as amended). For every list of tables and every run of the builder that
  writes its file: the file holds the snapshot built from the store; a table whose export
  failed has no rows, no record count and no checksum in it; a listed table whose export
  succeeded with rows has exactly its rows, their number and their checksum; and
  \<^verbatim>\<open>metadata.tables\<close> is the whole configured list, the failed tables included.
\<close>

theorem partial_failure_isolation:
  assumes "createFullBackupOf tbls e cfg db fs desc = Inr (p, fs')"
  shows "fs' = cleanupOldBackups e cfg
                 (fs_put p (Document (backup_json (build_snapshot e cfg db tbls desc))) fs)
    \<and> snapshot_tables (backup_json (build_snapshot e cfg db tbls desc)) = Some (JArr (map JStr tbls))
    \<and> (\<forall>t. select_error e t \<noteq> None \<longrightarrow>
          snapshot_data (backup_json (build_snapshot e cfg db tbls desc)) t = None
          \<and> snapshot_count (backup_json (build_snapshot e cfg db tbls desc)) t = None
          \<and> snapshot_checksum (backup_json (build_snapshot e cfg db tbls desc)) t = None)
    \<and> (\<forall>t\<in>set tbls. select_error e t = None \<and> \<not> select_null e t \<longrightarrow>
          snapshot_data (backup_json (build_snapshot e cfg db tbls desc)) t = Some (JArr (db t))
          \<and> snapshot_count (backup_json (build_snapshot e cfg db tbls desc)) t
              = Some (JNum (int (length (db t))))
          \<and> snapshot_checksum (backup_json (build_snapshot e cfg db tbls desc)) t
              = Some (JStr (checksum e (JArr (db t)))))"
  using createFullBackupOf_written [OF assms]
  by (simp add: snapshot_tables_build snapshot_data_build snapshot_count_build
      snapshot_checksum_build)

lemma example_partial_backup:
  "createFullBackupOf [''A'', ''B'', ''C''] failing_env default_config example_store [] None
     = Inr (''backups/backup_2024-05-06T07-08-09.json'',
            [(''backups/backup_2024-05-06T07-08-09.json'',
              Document (backup_json (build_snapshot failing_env default_config example_store
                                       [''A'', ''B'', ''C''] None)))])"
  by code_simp

theorem partial_failure_isolation_witness:
  "snapshot_tables (backup_json (build_snapshot failing_env default_config example_store
       [''A'', ''B'', ''C''] None)) = Some (JArr [JStr ''A'', JStr ''B'', JStr ''C''])
   \<and> snapshot_data (backup_json (build_snapshot failing_env default_config example_store
       [''A'', ''B'', ''C''] None)) ''B'' = None
   \<and> snapshot_count (backup_json (build_snapshot failing_env default_config example_store
       [''A'', ''B'', ''C''] None)) ''B'' = None
   \<and> snapshot_checksum (backup_json (build_snapshot failing_env default_config example_store
       [''A'', ''B'', ''C''] None)) ''B'' = None
   \<and> snapshot_data (backup_json (build_snapshot failing_env default_config example_store
       [''A'', ''B'', ''C''] None)) ''A''
       = Some (JArr [JObj [(''id'', JNum 1), (''name'', JStr ''x'')], JObj [(''id'', JNum 2)]])
   \<and> snapshot_count (backup_json (build_snapshot failing_env default_config example_store
       [''A'', ''B'', ''C''] None)) ''C'' = Some (JNum 1)"
proof -
  have b: "select_error failing_env ''B'' \<noteq> None" by (simp add: failing_env_def)
  have a: "''A'' \<in> set [''A'', ''B'', ''C''] \<and> select_error failing_env ''A'' = None
           \<and> \<not> select_null failing_env ''A''"
    by (simp add: failing_env_def quiet_env_def)
  have c: "''C'' \<in> set [''A'', ''B'', ''C''] \<and> select_error failing_env ''C'' = None
           \<and> \<not> select_null failing_env ''C''"
    by (simp add: failing_env_def quiet_env_def)
  have sa: "example_store ''A'' = [JObj [(''id'', JNum 1), (''name'', JStr ''x'')], JObj [(''id'', JNum 2)]]"
    by (simp add: example_store_def)
  have sc: "length (example_store ''C'') = 1" by (simp add: example_store_def)
  from partial_failure_isolation [OF example_partial_backup] a b c sa sc
  show ?thesis by auto
qed

text \<open>
  Claim C1 as stated fails: with the tables A, B, C and the export of B failing (A and C
  succeed), the written snapshot still lists B in \<^verbatim>\<open>metadata.tables\<close>.
\<close>

theorem failed_table_stays_listed:
  "createFullBackupOf [''A'', ''B'', ''C''] failing_env default_config example_store [] None
     = Inr (''backups/backup_2024-05-06T07-08-09.json'',
            [(''backups/backup_2024-05-06T07-08-09.json'',
              Document (backup_json (build_snapshot failing_env default_config example_store
                                       [''A'', ''B'', ''C''] None)))])
   \<and> select_error failing_env ''B'' = Some ''timeout''
   \<and> select_error failing_env ''A'' = None
   \<and> select_error failing_env ''C'' = None
   \<and> snapshot_tables (backup_json (build_snapshot failing_env default_config example_store
                                       [''A'', ''B'', ''C''] None))
       = Some (JArr [JStr ''A'', JStr ''B'', JStr ''C''])"
  by code_simp




section \<open>Properties of listing and pruning\<close>

lemma mset_insert_by: "mset (insert_by cmp x ys) = add_mset x (mset ys)"
  by (induction ys) auto

lemma mset_js_sort: "mset (js_sort cmp xs) = mset xs"
  by (induction xs) (auto simp: js_sort_def mset_insert_by)

lemma set_js_sort: "set (js_sort cmp xs) = set xs"
  using mset_js_sort [of cmp xs] by (metis set_mset_mset)



lemma insert_by_cong:
  "\<forall>y\<in>set ys. cmp x y = cmp' x y \<Longrightarrow> insert_by cmp x ys = insert_by cmp' x ys"
  by (induction ys) auto

lemma js_sort_cong:
  "\<forall>x\<in>set xs. \<forall>y\<in>set xs. cmp x y = cmp' x y \<Longrightarrow> js_sort cmp xs = js_sort cmp' xs"
proof (induction xs)
  case Nil
  then show ?case by (simp add: js_sort_def)
next
  case (Cons x xs)
  then have ih: "js_sort cmp xs = js_sort cmp' xs" by simp
  from Cons.prems have "\<forall>y\<in>set (js_sort cmp' xs). cmp x y = cmp' x y"
    by (simp add: set_js_sort)
  then have "insert_by cmp x (js_sort cmp' xs) = insert_by cmp' x (js_sort cmp' xs)"
    by (rule insert_by_cong)
  with ih show ?case by (simp add: js_sort_def)
qed



lemma set_sort_backups: "sort_backups e xs = Inr L \<Longrightarrow> mset L = mset xs"
  by (auto simp: sort_backups_def mset_js_sort split: if_splits)

lemma listing_subset:
  "set (listAvailableBackups e cfg fs) \<subseteq> set (read_backups fs (backupDirectory cfg))"
proof (cases "readdir_error e")
  case (Some m)
  then show ?thesis by (simp add: listAvailableBackups_def)
next
  case None
  show ?thesis
  proof (cases "sort_backups e (read_backups fs (backupDirectory cfg))")
    case (Inl err)
    with None show ?thesis by (simp add: listAvailableBackups_def)
  next
    case (Inr L)
    from set_sort_backups [OF Inr] have "set L = set (read_backups fs (backupDirectory cfg))"
      by (metis set_mset_mset)
    with None Inr show ?thesis by (simp add: listAvailableBackups_def)
  qed
qed


lemma set_js_slice: "set (js_slice n xs) \<subseteq> set xs"
  by (simp add: js_slice_def set_drop_subset)

lemma to_delete_listed:
  "set (backupsToDelete e cfg fs) \<subseteq> fst ` set (listAvailableBackups e cfg fs)"
proof (cases "int (length (listAvailableBackups e cfg fs)) > maxBackupCount cfg")
  case True
  then have "backupsToDelete e cfg fs
               = map fst (js_slice (maxBackupCount cfg) (listAvailableBackups e cfg fs))"
    by (simp add: backupsToDelete_def Let_def)
  with set_js_slice [of "maxBackupCount cfg" "listAvailableBackups e cfg fs"]
  show ?thesis by auto
next
  case False
  then show ?thesis by (simp add: backupsToDelete_def Let_def)
qed

lemma ends_with_iff: "ends_with s suf = (\<exists>pre. s = pre @ suf)"
proof
  assume "ends_with s suf"
  then have "drop (length s - length suf) s = suf" by (simp add: ends_with_def)
  then have "s = take (length s - length suf) s @ suf"
    by (metis append_take_drop_id)
  then show "\<exists>pre. s = pre @ suf" ..
next
  assume "\<exists>pre. s = pre @ suf"
  then obtain pre where "s = pre @ suf" ..
  then show "ends_with s suf" by (simp add: ends_with_def)
qed

lemma ends_with_drop: "ends_with (drop n q) suf \<Longrightarrow> ends_with q suf"
proof -
  assume "ends_with (drop n q) suf"
  then obtain pre where "drop n q = pre @ suf" by (auto simp: ends_with_iff)
  then have "q = (take n q @ pre) @ suf" by (metis append_take_drop_id append.assoc)
  then show ?thesis unfolding ends_with_iff ..
qed


lemma path_of_readdir:
  "name \<in> set (readdir fs dir) \<Longrightarrow>
     \<exists>q\<in>fst ` set fs. in_dir dir q \<and> name = drop (length dir + 1) q \<and> path_join dir name = q"
proof -
  assume "name \<in> set (readdir fs dir)"
  then obtain q where q: "q \<in> fst ` set fs" "in_dir dir q" "name = drop (length dir + 1) q"
    by (auto simp: readdir_def)
  from q(2) have "take (length dir + 1) q = dir @ ''/''" by (simp add: in_dir_def)
  then have "dir @ ''/'' @ drop (length dir + 1) q = q"
    by (metis append_take_drop_id append.assoc)
  with q show ?thesis by (auto simp: path_join_def)
qed

lemma backup_entry_elem:
  assumes "x \<in> set (backup_entry fs dir name)"
  shows "fst x = path_join dir name
         \<and> (\<exists>j. map_of fs (path_join dir name) = Some (Document j)
                  \<and> snd x = member_of (Some j) ''metadata'')"
proof (cases "map_of fs (path_join dir name)")
  case None
  with assms show ?thesis by (simp add: backup_entry_def readFile_def)
next
  case (Some c)
  show ?thesis
  proof (cases c)
    case Garbage
    with Some assms show ?thesis by (simp add: backup_entry_def readFile_def JSON_parse_def)
  next
    case (Document j)
    show ?thesis
    proof (cases "j = JNull")
      case True
      with Some Document assms show ?thesis
        by (simp add: backup_entry_def readFile_def JSON_parse_def)
    next
      case False
      with Some Document assms show ?thesis
        by (simp add: backup_entry_def readFile_def JSON_parse_def get_prop_member nullish_def)
    qed
  qed
qed

lemma read_backups_entry:
  assumes "x \<in> set (read_backups fs dir)"
  shows "in_dir dir (fst x) \<and> ends_with (fst x) ''.json''
         \<and> (\<exists>j. map_of fs (fst x) = Some (Document j) \<and> snd x = member_of (Some j) ''metadata'')"
proof -
  from assms obtain name where f: "name \<in> set (readdir fs dir)" "ends_with name ''.json''"
      "x \<in> set (backup_entry fs dir name)"
    by (auto simp: read_backups_def Let_def)
  from path_of_readdir [OF f(1)] obtain q where q: "in_dir dir q" "name = drop (length dir + 1) q"
      "path_join dir name = q"
    by blast
  from f(2) q(2) have e: "ends_with q ''.json''" using ends_with_drop by blast
  from backup_entry_elem [OF f(3)] q(3) have "fst x = q \<and> (\<exists>j. map_of fs q = Some (Document j)
                          \<and> snd x = member_of (Some j) ''metadata'')"
    by simp
  with q(1) e show ?thesis by auto
qed








text \<open>
  Claim C8 (as amended). Pruning does not tell full snapshots from critical ones. What it
  leaves alone is every file that is not a listed snapshot: a file is either unchanged by
  pruning, or it is removed and then it is a file of the backup directory whose name ends
  in \<^verbatim>\<open>.json\<close>, whose content parses, that is among the files to delete and whose
  deletion did not fail.
\<close>

theorem prune_touches_listed_json_only:
  "map_of (cleanupOldBackups e cfg fs) p = map_of fs p
   \<or> (map_of (cleanupOldBackups e cfg fs) p = None
       \<and> in_dir (backupDirectory cfg) p \<and> ends_with p ''.json''
       \<and> (\<exists>j. map_of fs p = Some (Document j))
       \<and> p \<in> set (backupsToDelete e cfg fs) \<and> unlink_error e p = None)"
proof (cases "p \<in> set (backupsToDelete e cfg fs) \<and> unlink_error e p = None")
  case False
  then have "map_of (cleanupOldBackups e cfg fs) p = map_of fs p"
    by (simp only: map_of_cleanup if_False)
  then show ?thesis ..
next
  case True
  with to_delete_listed [of e cfg fs] have "p \<in> fst ` set (listAvailableBackups e cfg fs)"
    by blast
  then obtain x where "x \<in> set (listAvailableBackups e cfg fs)" "fst x = p" by blast
  with listing_subset [of e cfg fs]
  have "x \<in> set (read_backups fs (backupDirectory cfg))" "fst x = p" by blast+
  from read_backups_entry [OF this(1)] this(2)
  have "in_dir (backupDirectory cfg) p \<and> ends_with p ''.json''
        \<and> (\<exists>j. map_of fs p = Some (Document j))"
    by auto
  with True show ?thesis by (simp add: map_of_cleanup)
qed

theorem prune_touches_listed_json_only_witness:
  "map_of (cleanupOldBackups quiet_env keep_three five_backups) ''backups/notes.txt''
     = map_of five_backups ''backups/notes.txt''"
proof -
  have "\<not> ends_with ''backups/notes.txt'' ''.json''" by code_simp
  with prune_touches_listed_json_only [of quiet_env keep_three five_backups "''backups/notes.txt''"]
  show ?thesis by blast
qed

text \<open>
  Claim C8 as stated fails: with the limit 3, a critical snapshot older than three full
  snapshots is deleted by pruning.
\<close>

theorem prune_deletes_critical:
  "map_of old_critical ''backups/critical_backup_a.json''
     = Some (Document (snapshot_of ''2024-01-01T00:00:00.000Z''))
   \<and> map_of (cleanupOldBackups quiet_env keep_three old_critical) ''backups/critical_backup_a.json''
     = None
   \<and> map fst (cleanupOldBackups quiet_env keep_three old_critical)
     = [''backups/backup_b.json'', ''backups/backup_c.json'', ''backups/backup_d.json'']"
  by code_simp

text \<open>When no timestamp of the listed snapshots is a date, every comparison is
  \<^verbatim>\<open>NaN\<close> and the listing stays in the order of the directory.\<close>

lemma js_sort_all_equal: "js_sort (\<lambda>a b. 0) xs = xs"
proof (induction xs)
  case Nil
  then show ?case by (simp add: js_sort_def)
next
  case (Cons x xs)
  then have "js_sort (\<lambda>a b. 0) (x # xs) = insert_by (\<lambda>a b. 0) x xs"
    by (simp add: js_sort_def)
  then show ?case by (cases xs) simp_all
qed

lemma listing_without_dates:
  assumes "readdir_error e = None"
      and "\<forall>x\<in>set (read_backups fs (backupDirectory cfg)).
             \<not> nullish (snd x) \<and> entry_time e x = None"
  shows "listAvailableBackups e cfg fs = read_backups fs (backupDirectory cfg)"
proof -
  let ?xs = "read_backups fs (backupDirectory cfg)"
  have "\<forall>x\<in>set ?xs. \<forall>y\<in>set ?xs. compare_backups e x y = (\<lambda>a b. 0) x y"
    using assms(2) by (simp add: compare_backups_def)
  then have "js_sort (compare_backups e) ?xs = js_sort (\<lambda>a b. 0) ?xs" by (rule js_sort_cong)
  then have "js_sort (compare_backups e) ?xs = ?xs" by (simp only: js_sort_all_equal)
  moreover have "\<not> list_ex (\<lambda>x. nullish (snd x)) ?xs"
    using assms(2) by (auto simp: list_ex_iff)
  ultimately show ?thesis using assms(1)
    by (simp add: listAvailableBackups_def sort_backups_def)
qed

section \<open>Properties of the restore\<close>

text \<open>
  Claim C4. The clear step is \<^verbatim>\<open>delete().neq('id', 0)\<close>, whose comment says that all
  rows are deleted and the condition is ignored. The store applies the condition: with
  \<^verbatim>\<open>clearBeforeRestore\<close> set and a table that holds a row with id 0 and a row with id
  3, the restore of one row with id 1 succeeds without any error and leaves the row with
  id 0 in the table, beside the imported row.
\<close>

theorem clear_keeps_row_with_id_0:
  "returned (restoreFromBackup quiet_env default_config zero_store
       [(''backups/s.json'', Document env_snapshot)] ''backups/s.json'' clear_all)
     = Inr \<lparr>success = True,
            details = Restored ''2024-05-06T07:08:09.123Z''
                        \<lparr>tablesRestored = 1, recordsRestored = Some 1, errors = []\<rparr>
                        ''backups/backup_2024-05-06T07-08-09.json''\<rparr>
   \<and> restored_rows (restoreFromBackup quiet_env default_config zero_store
       [(''backups/s.json'', Document env_snapshot)] ''backups/s.json'' clear_all) ''env_variables''
     = [JObj [(''id'', JNum 0), (''key'', JStr ''MODE'')],
        JObj [(''id'', JNum 1), (''key'', JStr ''NEW'')]]"
  by code_simp

text \<open>A failed clear records the error of the store for the table and leaves the table
  as it is; the import of the table is passed over and the loop goes on.\<close>

lemma failed_clear_skips_import:
  assumes "clearBeforeRestore opts" and "delete_error e (to_key t) = Some m"
      and "get_prop dt (to_key t) = Inr (Some tableData)"
      and "truthy (Some tableData)" and "own_prop tableData ''length'' \<noteq> Some (JNum 0)"
  shows "restore_table e opts dt t (db, p) = (db, record_error (to_key t) (ClearFailed m) p)"
  using assms by (simp add: restore_table_def Let_def supabase_delete_neq_id_0_def)








































end
